theory Spec2Isabelle
  imports Complex_Main "HOL-Library.Sublist" "HOL-Library.Char_ord" "HOL-Library.List_Lexorder"
begin

section \<open>Python values and the built-ins the scripts rely on\<close>

text \<open>
  The scripts work on decoded JSON. A value of \<open>json\<close> is what \<^verbatim>\<open>json.loads\<close> returns:
  \<^verbatim>\<open>None\<close>, a bool, an int, a float (a finite double, as the real number it denotes), a
  str, a list or a dict. A dict is an association list in insertion order whose keys are
  pairwise different, as \<^verbatim>\<open>json.loads\<close> leaves it. Strings are lists of characters with
  code points below 256.
\<close>

datatype json =
    JNull
  | JBool bool
  | JInt int
  | JFloat real
  | JString string
  | JList "json list"
  | JObject "(string \<times> json) list"

text \<open>
  Every exception a modelled function can raise is a value of \<open>error\<close>, named after its
  Python class. \<open>ValueError\<close> and \<open>Exception\<close> carry their message; \<open>Raised\<close> stands for
  an exception of the transport that the client does not catch.
\<close>

datatype error =
    ValueError string
  | Exception string
  | AttributeError
  | TypeError
  | IndexError
  | KeyError
  | JSONDecodeError
  | UnicodeDecodeError
  | OSError
  | Raised string

definition ebind :: "error + 'a \<Rightarrow> ('a \<Rightarrow> error + 'b) \<Rightarrow> error + 'b" where
  "ebind m f = (case m of Inl e \<Rightarrow> Inl e | Inr v \<Rightarrow> f v)"

text \<open>Truth value testing: \<^verbatim>\<open>if v\<close>, \<^verbatim>\<open>not v\<close>, \<^verbatim>\<open>a or b\<close>.\<close>

fun truthy :: "json \<Rightarrow> bool" where
  "truthy JNull = False"
| "truthy (JBool b) = b"
| "truthy (JInt i) = (i \<noteq> 0)"
| "truthy (JFloat r) = (r \<noteq> 0)"
| "truthy (JString s) = (s \<noteq> [])"
| "truthy (JList xs) = (xs \<noteq> [])"
| "truthy (JObject kvs) = (kvs \<noteq> [])"

definition py_or :: "json \<Rightarrow> json \<Rightarrow> json" where
  "py_or a b = (if truthy a then a else b)"

text \<open>\<^verbatim>\<open>Optional[str]\<close> and \<^verbatim>\<open>Optional[List[str]]\<close> arguments: \<^verbatim>\<open>None\<close> and the empty value are falsy.\<close>

fun opt_truthy :: "'a list option \<Rightarrow> bool" where
  "opt_truthy None = False"
| "opt_truthy (Some xs) = (xs \<noteq> [])"


text \<open>\<^verbatim>\<open>obj.get(key, default)\<close>: only a dict has the method.\<close>

fun dict_get :: "json \<Rightarrow> string \<Rightarrow> json \<Rightarrow> error + json" where
  "dict_get (JObject kvs) k d = Inr (case map_of kvs k of None \<Rightarrow> d | Some v \<Rightarrow> v)"
| "dict_get _ k d = Inl AttributeError"

text \<open>\<^verbatim>\<open>d[k] = v\<close>: an existing key keeps its position.\<close>

fun dict_set :: "(string \<times> json) list \<Rightarrow> string \<Rightarrow> json \<Rightarrow> (string \<times> json) list" where
  "dict_set [] k v = [(k, v)]"
| "dict_set ((k', v') # kvs) k v =
     (if k' = k then (k, v) # kvs else (k', v') # dict_set kvs k v)"

text \<open>\<^verbatim>\<open>v[0]\<close>. The keys of a decoded dict are strings, so the key \<open>0\<close> is never found.\<close>

fun py_index0 :: "json \<Rightarrow> error + json" where
  "py_index0 (JList []) = Inl IndexError"
| "py_index0 (JList (x # xs)) = Inr x"
| "py_index0 (JString []) = Inl IndexError"
| "py_index0 (JString (c # cs)) = Inr (JString [c])"
| "py_index0 (JObject kvs) = Inl KeyError"
| "py_index0 _ = Inl TypeError"

text \<open>\<^verbatim>\<open>str.isspace\<close> on code points below 256, and \<^verbatim>\<open>str.strip()\<close>.\<close>

definition isspace :: "char \<Rightarrow> bool" where
  "isspace c = ((of_char c :: nat) \<in> {9, 10, 11, 12, 13, 28, 29, 30, 31, 32, 133, 160})"

definition strip :: "string \<Rightarrow> string" where
  "strip s = rev (dropWhile isspace (rev (dropWhile isspace s)))"

text \<open>\<^verbatim>\<open>v.strip()\<close> on a decoded value: only a str has the method.\<close>

fun py_strip :: "json \<Rightarrow> error + string" where
  "py_strip (JString s) = Inr (strip s)"
| "py_strip _ = Inl AttributeError"

text \<open>Decimal digits of a number, as \<^verbatim>\<open>str(n)\<close> prints an int.\<close>

definition digit_char :: "nat \<Rightarrow> char" where
  "digit_char d = ''0123456789'' ! d"

function show_nat :: "nat \<Rightarrow> string" where
  "show_nat n = (if n < 10 then [] else show_nat (n div 10)) @ [digit_char (n mod 10)]"
  by pat_completeness auto
termination
  by (relation "measure id") auto

declare show_nat.simps [simp del]

definition show_int :: "int \<Rightarrow> string" where
  "show_int i = (if i < 0 then CHR ''-'' # show_nat (nat (- i)) else show_nat (nat i))"

text \<open>
  What the interpreter and its library supply and the repository does not define:
  \<open>py_repr\<close> is \<^verbatim>\<open>repr(v)\<close>, which is also \<^verbatim>\<open>str(v)\<close> for a float, a list or a dict;
  \<open>format_2f\<close> is \<^verbatim>\<open>format(v, ".2f")\<close>, which raises for a value that is not a number;
  \<open>url_refused\<close> is the exception, if any, that \<^verbatim>\<open>urllib.request.Request\<close> raises for a URL
  that has a scheme (a \<^verbatim>\<open>ValueError\<close> for a malformed IPv6 host, for instance).
\<close>

record runtime =
  py_repr :: "json \<Rightarrow> string"
  format_2f :: "json \<Rightarrow> error + string"
  url_refused :: "string \<Rightarrow> error option"

text \<open>\<^verbatim>\<open>f"{v}"\<close>, that is \<^verbatim>\<open>str(v)\<close>.\<close>

fun py_str :: "runtime \<Rightarrow> json \<Rightarrow> string" where
  "py_str rt (JString s) = s"
| "py_str rt (JInt i) = show_int i"
| "py_str rt (JBool b) = (if b then ''True'' else ''False'')"
| "py_str rt JNull = ''None''"
| "py_str rt v = py_repr rt v"

text \<open>Lookup in a value already known to be a dict: \<^verbatim>\<open>d.get(k, default)\<close>.\<close>

definition get_or :: "(string \<times> json) list \<Rightarrow> string \<Rightarrow> json \<Rightarrow> json" where
  "get_or kvs k d = (case map_of kvs k of None \<Rightarrow> d | Some v \<Rightarrow> v)"

text \<open>
  \<^verbatim>\<open>a == b\<close> on decoded values: bools, ints and floats compare by their numeric value, dicts
  regardless of the order of their keys.
\<close>

primrec canon :: "json \<Rightarrow> json" where
  "canon JNull = JNull"
| "canon (JBool b) = JFloat (if b then 1 else 0)"
| "canon (JInt i) = JFloat (of_int i)"
| "canon (JFloat r) = JFloat r"
| "canon (JString s) = JString s"
| "canon (JList xs) = JList (map canon xs)"
| "canon (JObject kvs) = JObject (sort_key fst (map (map_prod id canon) kvs))"

definition py_eq :: "json \<Rightarrow> json \<Rightarrow> bool" where
  "py_eq a b = (canon a = canon b)"

text \<open>\<^verbatim>\<open>v > 0\<close>: defined for numbers only.\<close>

fun py_gt0 :: "json \<Rightarrow> error + bool" where
  "py_gt0 (JBool b) = Inr b"
| "py_gt0 (JInt i) = Inr (i > 0)"
| "py_gt0 (JFloat r) = Inr (r > 0)"
| "py_gt0 _ = Inl TypeError"

text \<open>\<^verbatim>\<open>p in s\<close> for two strings.\<close>

fun is_infix :: "string \<Rightarrow> string \<Rightarrow> bool" where
  "is_infix p [] = (p = [])"
| "is_infix p (c # cs) = (prefix p (c # cs) \<or> is_infix p cs)"

text \<open>\<^verbatim>\<open>key in v\<close> for a string \<open>key\<close>: a substring of a str, an element of a list, a key of a
  dict.\<close>

fun py_contains :: "string \<Rightarrow> json \<Rightarrow> error + bool" where
  "py_contains k (JString s) = Inr (is_infix k s)"
| "py_contains k (JList xs) = Inr (JString k \<in> set xs)"
| "py_contains k (JObject kvs) = Inr (k \<in> set (map fst kvs))"
| "py_contains k _ = Inl TypeError"

text \<open>\<^verbatim>\<open>v[key]\<close> for a string \<open>key\<close>.\<close>

fun py_getitem :: "json \<Rightarrow> string \<Rightarrow> error + json" where
  "py_getitem (JObject kvs) k = (case map_of kvs k of None \<Rightarrow> Inl KeyError | Some v \<Rightarrow> Inr v)"
| "py_getitem _ k = Inl TypeError"

text \<open>\<^verbatim>\<open>s.split("::")\<close>, with the part read so far as first argument.\<close>

fun split_colons :: "string \<Rightarrow> string \<Rightarrow> string list" where
  "split_colons part (c # d # cs) =
     (if c = CHR '':'' \<and> d = CHR '':'' then part # split_colons [] cs
      else split_colons (part @ [c]) (d # cs))"
| "split_colons part cs = [part @ cs]"

fun py_split_colons :: "json \<Rightarrow> error + string list" where
  "py_split_colons (JString s) = Inr (split_colons [] s)"
| "py_split_colons _ = Inl AttributeError"

text \<open>\<^verbatim>\<open>sep.join(parts)\<close>.\<close>

fun join :: "string \<Rightarrow> string list \<Rightarrow> string" where
  "join sep [] = []"
| "join sep [x] = x"
| "join sep (x # y # ys) = x @ sep @ join sep (y # ys)"

text \<open>The elements a \<^verbatim>\<open>for\<close> loop visits: of a list its items, of a str its characters, of a
  dict its keys.\<close>

fun py_iter :: "json \<Rightarrow> error + json list" where
  "py_iter (JList xs) = Inr xs"
| "py_iter (JString s) = Inr (map (\<lambda>c. JString [c]) s)"
| "py_iter (JObject kvs) = Inr (map (\<lambda>kv. JString (fst kv)) kvs)"
| "py_iter _ = Inl TypeError"

section \<open>The API client (lib/api\_client.py)\<close>

subsection \<open>The process environment\<close>





subsection \<open>Credential resolution\<close>




record client =
  api_key :: string
  base_url :: string
  timeout :: nat



subsection \<open>Requests and the transport\<close>

text \<open>
  A request as \<^verbatim>\<open>urllib.request.urlopen\<close> receives it. \<open>req_url\<close> is the base URL followed
  by the endpoint; \<open>req_query\<close> holds the key-value pairs of the query string in order,
  before percent-encoding (\<open>None\<close> when the URL has no query string); \<open>req_data\<close> is the
  dict that is serialised as the body (\<open>None\<close> when no body is sent).
\<close>

record request =
  req_method :: string
  req_url :: string
  req_query :: "(string \<times> string) list option"
  req_headers :: "(string \<times> string) list"
  req_data :: "(string \<times> json) list option"
  req_timeout :: nat

text \<open>
  A body read from the wire: bytes that are not UTF-8, or the decoded text together with
  what \<^verbatim>\<open>json.loads\<close> makes of it (\<open>None\<close> when it raises \<^verbatim>\<open>JSONDecodeError\<close>, as it does for
  the empty text).
\<close>

datatype payload = Undecodable | Text string "json option"

text \<open>
  The four ways a call of \<^verbatim>\<open>urlopen\<close> and \<^verbatim>\<open>read\<close> can end: a response, an
  \<^verbatim>\<open>HTTPError\<close> with its status code and body, a \<^verbatim>\<open>URLError\<close> with its reason, or
  another exception.
\<close>

datatype http_outcome =
    HttpOk payload
  | HTTPError nat payload
  | URLError string
  | OtherFailure string

type_synonym network = "request \<Rightarrow> http_outcome"

text \<open>A query parameter is a str or a list of str; \<^verbatim>\<open>urlencode(params, doseq=True)\<close>
  writes one pair per element of a list.\<close>

datatype param = PStr string | PList "string list"

fun urlencode_doseq :: "(string \<times> param) list \<Rightarrow> (string \<times> string) list" where
  "urlencode_doseq [] = []"
| "urlencode_doseq ((k, PStr v) # ps) = (k, v) # urlencode_doseq ps"
| "urlencode_doseq ((k, PList vs) # ps) = map (Pair k) vs @ urlencode_doseq ps"

text \<open>The message taken from the body of an \<^verbatim>\<open>HTTPError\<close>.\<close>

definition error_message :: "payload \<Rightarrow> error + json" where
  "error_message p =
     (case p of
        Undecodable \<Rightarrow> Inl UnicodeDecodeError
      | Text error_body parsed \<Rightarrow>
          (case parsed of
             None \<Rightarrow> Inr (JString error_body)
           | Some error_data \<Rightarrow>
               ebind (dict_get error_data ''message'' JNull) (\<lambda>m.
               ebind (dict_get error_data ''error'' JNull) (\<lambda>e.
               Inr (py_or m (py_or e (JString error_body)))))))"

definition http_error :: "runtime \<Rightarrow> client \<Rightarrow> nat \<Rightarrow> json \<Rightarrow> error" where
  "http_error rt c code error_msg =
     (if code = 401 then
        (case py_strip error_msg of
           Inl e \<Rightarrow> e
         | Inr stripped \<Rightarrow>
             Exception (''Authentication failed (401)'' @
               (if stripped \<noteq> [] then '': '' @ py_str rt error_msg else []) @ ''. '' @
               ''Your API key may be invalid or expired. '' @
               ''Get a new key at: '' @ base_url c @ ''/settings/api-keys''))
      else if code = 403 then
        Exception (''Access denied (403): '' @ py_str rt error_msg @ ''. '' @
          ''Your API key may lack permissions for this operation.'')
      else if code = 404 then
        Exception (''Not found (404): '' @ py_str rt error_msg)
      else if code = 429 then
        Exception ''Rate limit exceeded (429). Please wait before retrying.''
      else if code \<ge> 500 then
        Exception (''Server error ('' @ show_nat code @ ''): '' @ py_str rt error_msg @ ''. '' @
          ''The CodeAlive service may be temporarily unavailable.'')
      else
        Exception (''API request failed ('' @ show_nat code @ ''): '' @ py_str rt error_msg))"

text \<open>
  \<^verbatim>\<open>urllib.parse.quote_plus\<close>: a space becomes \<open>+\<close>, letters, digits and \<open>_.-~\<close> stay, and
  every other character is written as the bytes of its UTF-8 encoding, each as \<open>%\<close> and two
  hexadecimal digits. \<open>query_string\<close> is the text \<^verbatim>\<open>urlencode\<close> makes of the pairs.
\<close>

definition unreserved :: "char \<Rightarrow> bool" where
  "unreserved c =
     (c \<in> set ''ABCDEFGHIJKLMNOPQRSTUVWXYZabcdefghijklmnopqrstuvwxyz0123456789_.-~'')"

definition hex_digit :: "nat \<Rightarrow> char" where
  "hex_digit d = ''0123456789ABCDEF'' ! d"

definition utf8 :: "char \<Rightarrow> nat list" where
  "utf8 c =
     (let n = (of_char c :: nat)
      in if n < 128 then [n] else [192 + n div 64, 128 + n mod 64])"

definition quote_char :: "char \<Rightarrow> string" where
  "quote_char c =
     (if c = CHR '' '' then ''+''
      else if unreserved c then [c]
      else concat (map (\<lambda>b. [CHR ''%'', hex_digit (b div 16), hex_digit (b mod 16)]) (utf8 c)))"

definition quote_plus :: "string \<Rightarrow> string" where
  "quote_plus s = concat (map quote_char s)"

definition query_string :: "(string \<times> string) list \<Rightarrow> string" where
  "query_string pairs = join ''&'' (map (\<lambda>kv. quote_plus (fst kv) @ ''='' @ quote_plus (snd kv)) pairs)"

text \<open>The URL \<^verbatim>\<open>_make_request\<close> builds from the base URL, the endpoint and the parameters.\<close>

definition request_url :: "client \<Rightarrow> string \<Rightarrow> (string \<times> param) list option \<Rightarrow> string" where
  "request_url c endpoint params =
     base_url c @ endpoint @
     (case params of
        Some (p # ps) \<Rightarrow> ''?'' @ query_string (urlencode_doseq (p # ps))
      | _ \<Rightarrow> [])"

text \<open>
  \<^verbatim>\<open>urllib.request.Request(url, ...)\<close> raises before anything is sent when it cannot read the
  URL. It unwraps the URL (\<^verbatim>\<open>urllib.parse.unwrap\<close>: surrounding white space, angle brackets
  and a leading \<^verbatim>\<open>URL:\<close> are dropped), cuts the fragment after the last \<open>#\<close>, and raises
  \<^verbatim>\<open>ValueError\<close> unless the rest starts with a scheme: one or more characters other than
  \<open>/\<close> and \<open>:\<close>, followed by \<open>:\<close>. The message shows the unwrapped URL, without a trailing
  \<open>#\<close>.
\<close>

definition unwrap :: "string \<Rightarrow> string" where
  "unwrap url =
     (let u = strip url;
          v = (if take 1 u = ''<'' \<and> take 1 (rev u) = ''>'' then strip (butlast (tl u)) else u)
      in if take 4 v = ''URL:'' then strip (drop 4 v) else v)"

definition before_fragment :: "string \<Rightarrow> string" where
  "before_fragment u =
     (if CHR ''#'' \<in> set u then rev (tl (dropWhile (\<lambda>c. c \<noteq> CHR ''#'') (rev u))) else u)"

definition full_url :: "string \<Rightarrow> string" where
  "full_url url =
     (let u = unwrap url in if u \<noteq> [] \<and> last u = CHR ''#'' then butlast u else u)"

definition has_url_type :: "string \<Rightarrow> bool" where
  "has_url_type u =
     (takeWhile (\<lambda>c. c \<noteq> CHR ''/'' \<and> c \<noteq> CHR '':'') u \<noteq> [] \<and>
      take 1 (dropWhile (\<lambda>c. c \<noteq> CHR ''/'' \<and> c \<noteq> CHR '':'') u) = '':'')"

definition request_error :: "runtime \<Rightarrow> string \<Rightarrow> error option" where
  "request_error rt url =
     (if \<not> has_url_type (before_fragment (unwrap url)) then
        Some (ValueError (''unknown url type: '' @ py_repr rt (JString (full_url url))))
      else url_refused rt url)"

text \<open>
  \<^verbatim>\<open>_make_request\<close>. The list of requests handed to the transport so far is passed in and
  returned: building the request object happens before the \<^verbatim>\<open>try\<close>, so when it raises,
  nothing is sent; otherwise the call hands exactly one request to the transport.
\<close>

definition make_request ::
  "runtime \<Rightarrow> client \<Rightarrow> network \<Rightarrow> string \<Rightarrow> string \<Rightarrow> (string \<times> param) list option \<Rightarrow>
   (string \<times> json) list option \<Rightarrow> request list \<Rightarrow> (error + json) \<times> request list" where
  "make_request rt c net method endpoint params body sent =
     (let req = \<lparr> req_method = method,
                  req_url = base_url c @ endpoint,
                  req_query =
                    (case params of
                       Some (p # ps) \<Rightarrow> Some (urlencode_doseq (p # ps))
                     | _ \<Rightarrow> None),
                  req_headers =
                    [(''Authorization'', ''Bearer '' @ api_key c),
                     (''Content-Type'', ''application/json'')],
                  req_data =
                    (case body of
                       Some (kv # kvs) \<Rightarrow> Some (kv # kvs)
                     | _ \<Rightarrow> None),
                  req_timeout = timeout c \<rparr>
      in (case request_error rt (request_url c endpoint params) of
            Some e \<Rightarrow> (Inl e, sent)
          | None \<Rightarrow>
              ((case net req of
                  HttpOk Undecodable \<Rightarrow> Inl UnicodeDecodeError
                | HttpOk (Text response_data parsed) \<Rightarrow>
                    if response_data \<noteq> [] then
                      (case parsed of None \<Rightarrow> Inl JSONDecodeError | Some v \<Rightarrow> Inr v)
                    else Inr (JObject [])
                | HTTPError code p \<Rightarrow>
                    (case error_message p of
                       Inl e \<Rightarrow> Inl e
                     | Inr error_msg \<Rightarrow> Inl (http_error rt c code error_msg))
                | URLError reason \<Rightarrow>
                    Inl (Exception (''Cannot connect to '' @ base_url c @ '': '' @ reason @
                      ''. '' @ ''Check your network connection and CODEALIVE_BASE_URL setting.''))
                | OtherFailure what \<Rightarrow> Inl (Raised what)),
               sent @ [req])))"

subsection \<open>Domain operations\<close>

definition get_datasources ::
  "runtime \<Rightarrow> client \<Rightarrow> network \<Rightarrow> bool \<Rightarrow> request list \<Rightarrow> (error + json) \<times> request list" where
  "get_datasources rt c net alive_only sent =
     make_request rt c net ''GET''
       (if alive_only then ''/api/datasources/alive'' else ''/api/datasources/all'')
       None None sent"

definition search_params ::
  "string \<Rightarrow> string list \<Rightarrow> string \<Rightarrow> bool \<Rightarrow> (string \<times> param) list" where
  "search_params query data_sources mode include_content =
     [(''Query'', PStr query),
      (''Mode'', PStr mode),
      (''IncludeContent'', PStr (if include_content then ''true'' else ''false'')),
      (''Names'', PList data_sources)]"

definition search ::
  "runtime \<Rightarrow> client \<Rightarrow> network \<Rightarrow> string \<Rightarrow> string list \<Rightarrow> string \<Rightarrow> bool \<Rightarrow>
   request list \<Rightarrow> (error + json) \<times> request list" where
  "search rt c net query data_sources mode include_content sent =
     make_request rt c net ''GET'' ''/api/search''
       (Some (search_params query data_sources mode include_content)) None sent"

record chat_result =
  answer :: json
  conversation_id :: json
  full_response :: json

definition chat_body ::
  "string \<Rightarrow> string list option \<Rightarrow> string option \<Rightarrow> error + (string \<times> json) list" where
  "chat_body question data_sources conv_id =
     (let body = [(''messages'',
                    JList [JObject [(''role'', JString ''user''), (''content'', JString question)]]),
                  (''stream'', JBool True)]
      in (case conv_id of
            Some (c # cs) \<Rightarrow> Inr (dict_set body ''conversationId'' (JString (c # cs)))
          | _ \<Rightarrow>
            (case data_sources of
               Some (d # ds) \<Rightarrow> Inr (dict_set body ''names'' (JList (map JString (d # ds))))
             | _ \<Rightarrow> Inl (ValueError ''Either conversation_id or data_sources must be provided''))))"

definition chat_answer :: "json \<Rightarrow> error + chat_result" where
  "chat_answer response =
     ebind (dict_get response ''choices'' (JList [JObject []])) (\<lambda>choices.
     ebind (py_index0 choices) (\<lambda>first.
     ebind (dict_get first ''message'' (JObject [])) (\<lambda>message.
     ebind (dict_get message ''content'' (JString [])) (\<lambda>content.
     ebind (dict_get response ''id'' JNull) (\<lambda>ident.
     Inr \<lparr> answer = content, conversation_id = ident, full_response = response \<rparr>)))))"

definition chat ::
  "runtime \<Rightarrow> client \<Rightarrow> network \<Rightarrow> string \<Rightarrow> string list option \<Rightarrow> string option \<Rightarrow>
   request list \<Rightarrow> (error + chat_result) \<times> request list" where
  "chat rt c net question data_sources conv_id sent =
     (case chat_body question data_sources conv_id of
        Inl e \<Rightarrow> (Inl e, sent)
      | Inr body \<Rightarrow>
          (case make_request rt c net ''POST'' ''/api/chat/completions'' None
                  (Some (dict_set body ''stream'' (JBool False))) sent of
             (Inl e, sent') \<Rightarrow> (Inl e, sent')
           | (Inr response, sent') \<Rightarrow> (chat_answer response, sent')))"

section \<open>The search script (search.py)\<close>

text \<open>The body of the loop of \<^verbatim>\<open>format_search_results\<close>: the lines appended for one result.\<close>

definition format_fields :: "runtime \<Rightarrow> nat \<Rightarrow> (string \<times> json) list \<Rightarrow> error + string list" where
  "format_fields rt idx result =
    (let location = get_or result ''location'' (JObject []) in
     ebind (dict_get location ''path'' JNull) (\<lambda>location_path.
     let file_path = py_or location_path (py_or (get_or result ''filePath'' JNull)
                       (py_or (get_or result ''file'' JNull) (get_or result ''path'' JNull))) in
     ebind (dict_get location ''range'' (JObject [])) (\<lambda>range_info.
     ebind (dict_get range_info ''start'' (JObject [])) (\<lambda>range_start.
     ebind (dict_get range_start ''line'' JNull) (\<lambda>range_start_line.
     let start_line = py_or range_start_line (py_or (get_or result ''startLine'' JNull)
                        (get_or result ''lineNumber'' JNull)) in
     ebind (dict_get range_info ''end'' (JObject [])) (\<lambda>range_end.
     ebind (dict_get range_end ''line'' JNull) (\<lambda>range_end_line.
     let end_line = py_or range_end_line (get_or result ''endLine'' JNull);
         ds = get_or result ''dataSource'' (JObject []);
         source_name = (case ds of JObject d \<Rightarrow> get_or d ''name'' JNull | _ \<Rightarrow> ds);
         kind = get_or result ''kind'' (JString []);
         identifier = get_or result ''identifier'' (JString []) in
     ebind (if \<not> truthy file_path then
              ebind (py_contains ''::'' identifier) (\<lambda>has_sep.
              if has_sep then
                ebind (py_split_colons identifier) (\<lambda>parts.
                Inr (if length parts \<ge> 2 then JString (parts ! 1) else file_path))
              else Inr file_path)
            else Inr file_path) (\<lambda>file_path.
     let score = py_or (get_or result ''score'' JNull) (get_or result ''relevance'' JNull);
         snippet = py_or (get_or result ''snippet'' JNull) (py_or (get_or result ''content'' JNull)
                     (py_or (get_or result ''code'' JNull) (JString [])));
         loc_str = py_or file_path (JString []) in
     ebind (if truthy loc_str \<and> truthy start_line then py_gt0 start_line else Inr False)
       (\<lambda>has_start.
     ebind (if has_start then
              ebind (if truthy end_line \<and> \<not> py_eq end_line start_line then py_gt0 end_line
                     else Inr False) (\<lambda>has_end.
              Inr (JString
                (if has_end then
                   py_str rt file_path @ '':'' @ py_str rt start_line @ ''-'' @ py_str rt end_line
                 else py_str rt file_path @ '':'' @ py_str rt start_line)))
            else Inr loc_str) (\<lambda>loc_str.
     ebind (if truthy identifier \<and> \<not> py_eq kind (JString ''Chunk'') then
              ebind (py_contains ''::'' identifier) (\<lambda>has_sep.
              ebind (if has_sep then
                       ebind (py_split_colons identifier) (\<lambda>parts. Inr (JString (last parts)))
                     else Inr identifier) (\<lambda>short_id.
              Inr (if \<not> py_eq short_id file_path then [''  Symbol: '' @ py_str rt short_id]
                   else [])))
            else Inr []) (\<lambda>symbol_line.
     ebind (if score \<noteq> JNull then
              ebind (format_2f rt score) (\<lambda>shown. Inr [''  Relevance: '' @ shown])
            else Inr []) (\<lambda>score_line.
     ebind (py_strip snippet) (\<lambda>stripped.
     Inr ([''\<newline>--- Result #'' @ show_nat idx @ '' ['' @ py_str rt kind @ ''] ---''] @
          (if truthy loc_str then [''  File: '' @ py_str rt loc_str] else []) @
          symbol_line @
          (if truthy source_name then [''  Source: '' @ py_str rt source_name] else []) @
          score_line @
          (if stripped \<noteq> [] then [''\<newline>```\<newline>'' @ stripped @ ''\<newline>```''] else [])))))))))))))))"

fun format_result :: "runtime \<Rightarrow> nat \<Rightarrow> json \<Rightarrow> error + string list" where
  "format_result rt idx (JObject result) = format_fields rt idx result"
| "format_result rt idx _ = Inl AttributeError"

fun format_results :: "runtime \<Rightarrow> nat \<Rightarrow> json list \<Rightarrow> error + string list" where
  "format_results rt idx [] = Inr []"
| "format_results rt idx (result # rest) =
     ebind (format_result rt idx result) (\<lambda>block.
     ebind (format_results rt (Suc idx) rest) (\<lambda>blocks. Inr (block @ blocks)))"

definition format_search_results :: "runtime \<Rightarrow> json \<Rightarrow> bool \<Rightarrow> error + string" where
  "format_search_results rt results include_content =
     (if \<not> truthy results then Inr ''No results found.''
      else
        ebind (case results of
                 JList xs \<Rightarrow> Inr results
               | _ \<Rightarrow>
                   ebind (py_contains ''results'' results) (\<lambda>has_results.
                   if has_results then py_getitem results ''results'' else Inr (JList [results])))
          (\<lambda>items.
        if \<not> truthy items then Inr ''No results found.''
        else
          ebind (py_iter items) (\<lambda>elems.
          ebind (format_results rt 1 elems) (\<lambda>output.
          Inr (join ''\<newline>''
            (output @ [''\<newline>('' @ show_nat (length elems) @ '' results)'']))))))"


text \<open>
  What a run of a script leaves behind: its exit status, what it printed on standard output
  and the requests it sent. Progress and error messages go to standard error and are not
  modelled.
\<close>

datatype printed = HelpText | Rendered string

record run =
  exit_code :: nat
  stdout :: "printed list"
  requests :: "request list"



section \<open>The explore script (explore.py)\<close>




text \<open>\<^verbatim>\<open>f"'{s}'"\<close>.\<close>

definition quoted :: "string \<Rightarrow> string" where
  "quoted s = [CHR 0x27] @ s @ [CHR 0x27]"

text \<open>
  What the workflows print is not modelled, only what they compute and send. A workflow
  returns the answer it prints last. The loop of \<^verbatim>\<open>explore_understand\<close> over the first five
  results is kept for the exceptions it can raise between the two calls.
\<close>

definition understand_items :: "json \<Rightarrow> json" where
  "understand_items search_results =
     (case search_results of
        JList xs \<Rightarrow> search_results
      | JObject kvs \<Rightarrow> get_or kvs ''results'' (JList [])
      | _ \<Rightarrow> JList [])"

text \<open>The elements of \<^verbatim>\<open>items[:5]\<close>. Slicing a dict raises (\<^verbatim>\<open>TypeError\<close> up to Python 3.11).\<close>

fun first_five :: "json \<Rightarrow> error + json list" where
  "first_five (JList xs) = Inr (take 5 xs)"
| "first_five (JString s) = Inr (map (\<lambda>c. JString [c]) (take 5 s))"
| "first_five _ = Inl TypeError"

definition understand_location :: "runtime \<Rightarrow> nat \<Rightarrow> json \<Rightarrow> error + string" where
  "understand_location rt idx item =
     (case item of
        JObject result \<Rightarrow>
          (let location = get_or result ''location'' (JObject []) in
           ebind (dict_get location ''path'' JNull) (\<lambda>location_path.
           let file_path = py_or location_path (py_or (get_or result ''filePath'' JNull)
                             (py_or (get_or result ''file'' JNull) (JString ''Unknown''))) in
           ebind (dict_get location ''range'' (JObject [])) (\<lambda>range_info.
           ebind (dict_get range_info ''start'' (JObject [])) (\<lambda>range_start.
           ebind (dict_get range_start ''line'' JNull) (\<lambda>range_start_line.
           let line = py_or range_start_line
                        (py_or (get_or result ''startLine'' JNull) (JString ''?'')) in
           Inr (''   '' @ show_nat idx @ ''. '' @ py_str rt file_path @ '':'' @
                py_str rt line))))))
      | _ \<Rightarrow> Inl AttributeError)"

fun understand_locations :: "runtime \<Rightarrow> nat \<Rightarrow> json list \<Rightarrow> error + string list" where
  "understand_locations rt idx [] = Inr []"
| "understand_locations rt idx (item # rest) =
     ebind (understand_location rt idx item) (\<lambda>shown.
     ebind (understand_locations rt (Suc idx) rest) (\<lambda>more. Inr (shown # more)))"

type_synonym workflow =
  "runtime \<Rightarrow> client \<Rightarrow> network \<Rightarrow> string \<Rightarrow> string list \<Rightarrow> request list \<Rightarrow>
   (error + json) \<times> request list"

definition explore_understand :: workflow where
  "explore_understand rt c net query data_sources sent =
     (case search rt c net query data_sources ''auto'' False sent of
        (Inl e, sent1) \<Rightarrow> (Inl e, sent1)
      | (Inr search_results, sent1) \<Rightarrow>
          (case ebind (first_five (understand_items search_results))
                  (understand_locations rt 1) of
             Inl e \<Rightarrow> (Inl e, sent1)
           | Inr shown \<Rightarrow>
               (case chat rt c net
                       (''Based on the search results for '' @ quoted query @
                        '', explain how this works in the codebase. '' @
                        ''Focus on architecture, key components, and data flow.'')
                       (Some data_sources) None sent1 of
                  (Inl e, sent2) \<Rightarrow> (Inl e, sent2)
                | (Inr chat_result, sent2) \<Rightarrow> (Inr (answer chat_result), sent2))))"

definition explore_dependency :: workflow where
  "explore_dependency rt c net query data_sources sent =
     (case search rt c net
             (''How is '' @ query @ '' used? Show me import statements and usage examples'')
             data_sources ''auto'' True sent of
        (Inl e, sent1) \<Rightarrow> (Inl e, sent1)
      | (Inr search_results, sent1) \<Rightarrow>
          (case chat rt c net
                  (''About the library/dependency '' @ quoted query @ '':\<newline>'' @
                   ''1. How does it work internally?\<newline>'' @
                   ''2. What are the common usage patterns in this codebase?\<newline>'' @
                   ''3. What are best practices and potential gotchas?\<newline>'' @
                   ''4. How do other projects in the ecosystem use it?'')
                  (Some data_sources) None sent1 of
             (Inl e, sent2) \<Rightarrow> (Inl e, sent2)
           | (Inr chat_result, sent2) \<Rightarrow> (Inr (answer chat_result), sent2)))"

definition explore_pattern :: workflow where
  "explore_pattern rt c net query data_sources sent =
     (case search rt c net (''Show me different implementations of '' @ query)
             data_sources ''deep'' True sent of
        (Inl e, sent1) \<Rightarrow> (Inl e, sent1)
      | (Inr search_results, sent1) \<Rightarrow>
          (case chat rt c net
                  (''Analyze the different implementations of '' @ quoted query @
                   '' found in the codebase:\<newline>'' @
                   ''1. What are the common patterns?\<newline>'' @
                   ''2. What are the variations?\<newline>'' @
                   ''3. Which approach is recommended and why?\<newline>'' @
                   ''4. Are there any anti-patterns to avoid?'')
                  (Some data_sources) None sent1 of
             (Inl e, sent2) \<Rightarrow> (Inl e, sent2)
           | (Inr chat_result, sent2) \<Rightarrow> (Inr (answer chat_result), sent2)))"

definition explore_implement :: workflow where
  "explore_implement rt c net query data_sources sent =
     (case search rt c net (''Similar features to '' @ query @ '', existing implementations'')
             data_sources ''auto'' False sent of
        (Inl e, sent1) \<Rightarrow> (Inl e, sent1)
      | (Inr search_results, sent1) \<Rightarrow>
          (case chat rt c net
                  (''I need to implement '' @ quoted query @ ''. Based on the codebase:\<newline>'' @
                   ''1. What similar features exist that I can learn from?\<newline>'' @
                   ''2. What are the architectural patterns I should follow?\<newline>'' @
                   ''3. What components/services do I need to integrate with?\<newline>'' @
                   ''4. What are the key considerations (security, performance, testing)?\<newline>'' @
                   ''5. What'' @ [CHR 0x27] @ ''s the recommended approach to implement this?'')
                  (Some data_sources) None sent1 of
             (Inl e, sent2) \<Rightarrow> (Inl e, sent2)
           | (Inr chat_result, sent2) \<Rightarrow> (Inr (answer chat_result), sent2)))"

definition explore_debug :: workflow where
  "explore_debug rt c net query data_sources sent =
     (case search rt c net (''Code related to '' @ query) data_sources ''auto'' True sent of
        (Inl e, sent1) \<Rightarrow> (Inl e, sent1)
      | (Inr search_results, sent1) \<Rightarrow>
          (case chat rt c net
                  (''Help me debug: '' @ quoted query @ ''\<newline>'' @
                   ''1. What code is likely involved?\<newline>'' @
                   ''2. What could be causing this issue?\<newline>'' @
                   ''3. What should I check first?\<newline>'' @
                   ''4. What are common mistakes related to this?\<newline>'' @
                   ''5. How can I trace and fix this issue?'')
                  (Some data_sources) None sent1 of
             (Inl e, sent2) \<Rightarrow> (Inl e, sent2)
           | (Inr chat_result, sent2) \<Rightarrow> (Inr (answer chat_result), sent2)))"

text \<open>The dispatch on the mode in \<^verbatim>\<open>main\<close>; no branch is taken for another mode.\<close>

definition explore :: "string \<Rightarrow> workflow" where
  "explore mode rt c net query data_sources sent =
     (if mode = ''understand'' then explore_understand rt c net query data_sources sent
      else if mode = ''dependency'' then explore_dependency rt c net query data_sources sent
      else if mode = ''pattern'' then explore_pattern rt c net query data_sources sent
      else if mode = ''implement'' then explore_implement rt c net query data_sources sent
      else if mode = ''debug'' then explore_debug rt c net query data_sources sent
      else (Inr JNull, sent))"



text \<open>Reading a sent request: a key of its body, a key of its query string.\<close>

definition body_key :: "request \<Rightarrow> string \<Rightarrow> json option" where
  "body_key r k = (case req_data r of None \<Rightarrow> None | Some b \<Rightarrow> map_of b k)"

definition query_key :: "request \<Rightarrow> string \<Rightarrow> string option" where
  "query_key r k = (case req_query r of None \<Rightarrow> None | Some q \<Rightarrow> map_of q k)"

section \<open>What the specification says, and sample inputs\<close>







text \<open>The query text each workflow of the explore script searches for.\<close>

definition search_text :: "string \<Rightarrow> string \<Rightarrow> string" where
  "search_text mode query =
     (if mode = ''dependency'' then
        ''How is '' @ query @ '' used? Show me import statements and usage examples''
      else if mode = ''pattern'' then ''Show me different implementations of '' @ query
      else if mode = ''implement'' then
        ''Similar features to '' @ query @ '', existing implementations''
      else if mode = ''debug'' then ''Code related to '' @ query
      else query)"

text \<open>
  Inputs for the concrete runs below: a runtime (no run prints a float, a list or a dict,
  or formats a score, and no URL with a scheme is refused), a client, and a Linux machine
  with no variable set and no \<^verbatim>\<open>secret-tool\<close> installed.
\<close>

definition sample_runtime :: runtime where
  "sample_runtime = \<lparr> py_repr = (\<lambda>v. ''...''), format_2f = (\<lambda>v. Inl TypeError),
                      url_refused = (\<lambda>url. None) \<rparr>"

definition sample_client :: client where
  "sample_client = \<lparr> api_key = ''sample-key'', base_url = ''https://app.codealive.ai'',
                     timeout = 60 \<rparr>"


section \<open>Building a request\<close>

lemmas url_eval =
  request_error_def request_url_def search_params_def query_string_def quote_plus_def
  quote_char_def unreserved_def utf8_def hex_digit_def unwrap_def before_fragment_def
  full_url_def has_url_type_def strip_def isspace_def

lemma sample_chat_url:
  "request_error sample_runtime (request_url sample_client ''/api/chat/completions'' None) =
     None"
  by (simp add: url_eval sample_runtime_def sample_client_def)

lemma make_request_refused:
  "request_error rt (request_url c endpoint params) = Some e \<Longrightarrow>
   make_request rt c net method endpoint params body sent = (Inl e, sent)"
  by (simp add: make_request_def Let_def)

lemma make_request_sent:
  "\<exists>rest. snd (make_request rt c net method endpoint params body sent) = sent @ rest \<and>
     length rest \<le> 1 \<and>
     (request_error rt (request_url c endpoint params) = None \<longrightarrow> rest \<noteq> []) \<and>
     (rest = [] \<longrightarrow> (\<exists>e. make_request rt c net method endpoint params body sent = (Inl e, sent))) \<and>
     (\<forall>req \<in> set rest.
        req_method req = method \<and> req_url req = base_url c @ endpoint \<and>
        req_query req =
          (case params of Some (p # ps) \<Rightarrow> Some (urlencode_doseq (p # ps)) | _ \<Rightarrow> None) \<and>
        req_data req = (case body of Some (kv # kvs) \<Rightarrow> Some (kv # kvs) | _ \<Rightarrow> None))"
  by (cases "request_error rt (request_url c endpoint params)")
     (simp_all add: make_request_def Let_def)

lemma dict_set_not_empty: "dict_set kvs k v \<noteq> []"
  by (induction kvs k v rule: dict_set.induct) simp_all

lemma snd_chat:
  "snd (chat rt c net question data_sources conv_id sent) =
     (case chat_body question data_sources conv_id of
        Inl e \<Rightarrow> sent
      | Inr body \<Rightarrow>
          snd (make_request rt c net ''POST'' ''/api/chat/completions'' None
                 (Some (dict_set body ''stream'' (JBool False))) sent))"
  by (simp add: chat_def split: sum.splits prod.splits)

text \<open>
  A base URL without a scheme: building the request raises \<^verbatim>\<open>ValueError\<close> and nothing is
  sent.
\<close>

lemma make_request_without_scheme:
  "make_request rt (sample_client \<lparr> base_url := ''app.codealive.ai'' \<rparr>) net
     ''POST'' ''/api/chat/completions'' None body sent =
   (Inl (ValueError (''unknown url type: '' @
      py_repr rt (JString ''app.codealive.ai/api/chat/completions''))), sent)"
  by (rule make_request_refused) (simp add: url_eval sample_client_def)

section \<open>Properties of chat\<close>

text \<open>
  Claim C1. When \<^verbatim>\<open>chat\<close> is called with no conversation id and with \<^verbatim>\<open>data_sources\<close>
  absent or empty, it raises the \<^verbatim>\<open>ValueError\<close> of the violated precondition and hands no
  request to the transport: the list of requests sent is unchanged.
\<close>

theorem chat_neither_fails:
  "data_sources = None \<or> data_sources = Some [] \<Longrightarrow>
   chat rt c net question data_sources None sent =
     (Inl (ValueError ''Either conversation_id or data_sources must be provided''), sent)"
  by (auto simp: chat_def chat_body_def)

theorem chat_neither_fails_witness:
  "chat sample_runtime sample_client (\<lambda>r. HttpOk (Text [] None))
     ''How does login work?'' (Some []) None [] =
   (Inl (ValueError ''Either conversation_id or data_sources must be provided''), [])"
  using chat_neither_fails [of "Some []"] by simp

text \<open>
  Claim C2, as stated, fails for the empty conversation id: it is supplied, yet the
  client treats it as absent and starts a new conversation on the data sources. The
  request body then has \<^verbatim>\<open>names\<close> and no \<^verbatim>\<open>conversationId\<close>.
\<close>

theorem chat_empty_conversation_id_counterexample:
  "map (\<lambda>req. (body_key req ''conversationId'', body_key req ''names''))
     (snd (chat sample_runtime sample_client (\<lambda>r. HttpOk (Text [] None))
             ''How does login work?'' (Some [''my-repo'']) (Some []) [])) =
   [(None, Some (JList [JString ''my-repo'']))]"
  using sample_chat_url
  by (simp add: snd_chat chat_body_def make_request_def body_key_def Let_def)

text \<open>
  Claim C2, amended. A call of \<^verbatim>\<open>chat\<close> sends at most one request, and exactly one when
  its arguments are well-formed and the request can be built for the client's URL; the
  request is a POST to the chat endpoint. With a non-empty conversation id, whatever
  \<^verbatim>\<open>data_sources\<close> is, its body has \<^verbatim>\<open>conversationId\<close> set to the given id and has no key
  \<^verbatim>\<open>names\<close>. With an absent or empty conversation id, its body has no \<^verbatim>\<open>conversationId\<close>
  and has the data sources under \<^verbatim>\<open>names\<close>.
\<close>

theorem chat_continuation_precedence:
  "\<exists>rest. snd (chat rt c net question data_sources conv_id sent) = sent @ rest \<and>
     length rest \<le> 1 \<and>
     (request_error rt (request_url c ''/api/chat/completions'' None) = None \<and>
      (opt_truthy conv_id \<or> opt_truthy data_sources) \<longrightarrow> rest \<noteq> []) \<and>
     (\<forall>req \<in> set rest.
        req_method req = ''POST'' \<and>
        req_url req = base_url c @ ''/api/chat/completions'' \<and>
        (if opt_truthy conv_id then
           body_key req ''conversationId'' = map_option JString conv_id \<and>
           body_key req ''names'' = None
         else
           body_key req ''conversationId'' = None \<and>
           body_key req ''names'' = map_option (\<lambda>ds. JList (map JString ds)) data_sources))"
proof (cases "chat_body question data_sources conv_id")
  case (Inl e)
  then have "\<not> (opt_truthy conv_id \<or> opt_truthy data_sources)"
    by (cases conv_id; cases data_sources)
       (auto simp: chat_body_def Let_def split: list.splits)
  with Inl show ?thesis by (simp add: snd_chat)
next
  case (Inr body)
  define sent_body where "sent_body = dict_set body ''stream'' (JBool False)"
  have keys:
    "if opt_truthy conv_id then
       map_of sent_body ''conversationId'' = map_option JString conv_id \<and>
       map_of sent_body ''names'' = None
     else
       map_of sent_body ''conversationId'' = None \<and>
       map_of sent_body ''names'' = map_option (\<lambda>ds. JList (map JString ds)) data_sources"
    using Inr unfolding sent_body_def
    by (cases conv_id; cases data_sources)
       (auto simp: chat_body_def Let_def split: list.splits)
  have "sent_body \<noteq> []"
    unfolding sent_body_def by (rule dict_set_not_empty)
  then obtain kv kvs where cons: "sent_body = kv # kvs"
    by (cases sent_body) simp_all
  from make_request_sent
    [of rt c net "''POST''" "''/api/chat/completions''" None "Some (kv # kvs)" sent]
  obtain rest where
    rest: "snd (make_request rt c net ''POST'' ''/api/chat/completions'' None
             (Some (kv # kvs)) sent) = sent @ rest"
    and len: "length rest \<le> 1"
    and built: "request_error rt (request_url c ''/api/chat/completions'' None) = None \<longrightarrow>
                  rest \<noteq> []"
    and shape: "\<forall>req \<in> set rest.
        req_method req = ''POST'' \<and> req_url req = base_url c @ ''/api/chat/completions'' \<and>
        req_data req = Some (kv # kvs)"
    by auto
  from shape have shape': "\<forall>req \<in> set rest.
        req_method req = ''POST'' \<and> req_url req = base_url c @ ''/api/chat/completions'' \<and>
        req_data req = Some sent_body"
    by (simp add: cons)
  from Inr rest have "snd (chat rt c net question data_sources conv_id sent) = sent @ rest"
    using cons by (simp add: snd_chat sent_body_def)
  moreover have "\<forall>req \<in> set rest.
        req_method req = ''POST'' \<and>
        req_url req = base_url c @ ''/api/chat/completions'' \<and>
        (if opt_truthy conv_id then
           body_key req ''conversationId'' = map_option JString conv_id \<and>
           body_key req ''names'' = None
         else
           body_key req ''conversationId'' = None \<and>
           body_key req ''names'' = map_option (\<lambda>ds. JList (map JString ds)) data_sources)"
    using shape' keys by (auto simp: body_key_def)
  ultimately show ?thesis
    using len built by (intro exI [of _ rest]) simp
qed

theorem chat_continuation_precedence_witness:
  "\<exists>req. snd (chat sample_runtime sample_client (\<lambda>r. HttpOk (Text [] None))
               ''And the logout?'' (Some [''my-repo'']) (Some ''conv-42'') []) = [req] \<and>
     req_method req = ''POST'' \<and>
     req_url req = ''https://app.codealive.ai/api/chat/completions'' \<and>
     body_key req ''conversationId'' = Some (JString ''conv-42'') \<and>
     body_key req ''names'' = None"
proof -
  from chat_continuation_precedence
    [of sample_runtime sample_client "\<lambda>r. HttpOk (Text [] None)" "''And the logout?''"
        "Some [''my-repo'']" "Some ''conv-42''" "[]"]
  obtain rest where
    rest: "snd (chat sample_runtime sample_client (\<lambda>r. HttpOk (Text [] None))
                  ''And the logout?'' (Some [''my-repo'']) (Some ''conv-42'') []) = rest"
    and len: "length rest \<le> 1" and ne: "rest \<noteq> []"
    and all: "\<forall>req \<in> set rest.
        req_method req = ''POST'' \<and>
        req_url req = base_url sample_client @ ''/api/chat/completions'' \<and>
        body_key req ''conversationId'' = Some (JString ''conv-42'') \<and>
        body_key req ''names'' = None"
    using sample_chat_url by auto
  from len ne obtain req where "rest = [req]"
    by (cases rest) auto
  with rest all show ?thesis
    by (auto simp: sample_client_def)
qed

lemma chat_body_ok:
  "opt_truthy conv \<or> opt_truthy ds \<Longrightarrow> \<exists>body. chat_body q ds conv = Inr body"
  by (cases conv; cases ds) (auto simp: chat_body_def Let_def split: list.splits)

lemma chat_on_response:
  assumes "opt_truthy conv \<or> opt_truthy ds"
    and "request_error rt (request_url c ''/api/chat/completions'' None) = None"
    and "\<And>r. net r = HttpOk (Text raw (Some resp))" and "raw \<noteq> []"
  shows "fst (chat rt c net q ds conv sent) = chat_answer resp"
proof -
  from assms(1) obtain body where "chat_body q ds conv = Inr body"
    using chat_body_ok by blast
  then show ?thesis
    using assms(2,3,4) by (simp add: chat_def make_request_def)
qed

text \<open>
  Claim C4. When the call is well-formed (a conversation id or data sources are given), the
  request can be built for the client's URL, and the response is
  \<^verbatim>\<open>{"choices":[{"message":{"content":x}}], "id":i}\<close>, \<^verbatim>\<open>chat\<close> returns a mapping whose
  \<^verbatim>\<open>answer\<close> is \<open>x\<close> and whose \<^verbatim>\<open>conversation_id\<close> is \<open>i\<close>; the claim is the instance
  \<open>x = "X"\<close>, \<open>i = "abc"\<close>.
\<close>

theorem chat_returns_answer_and_id:
  assumes "opt_truthy conv \<or> opt_truthy ds"
    and "request_error rt (request_url c ''/api/chat/completions'' None) = None"
    and "\<And>r. net r = HttpOk (Text raw (Some (JObject
           [(''choices'', JList [JObject [(''message'', JObject [(''content'', JString x)])]]),
            (''id'', JString i)])))"
    and "raw \<noteq> []"
  shows "\<exists>res. fst (chat rt c net q ds conv sent) = Inr res \<and>
           answer res = JString x \<and> conversation_id res = JString i"
  using chat_on_response [OF assms] by (simp add: chat_answer_def ebind_def)

theorem chat_returns_answer_and_id_witness:
  \<open>\<exists>res. fst (chat sample_runtime sample_client
        (\<lambda>r. HttpOk (Text ''{"choices":[{"message":{"content":"X"}}], "id":"abc"}''
           (Some (JObject
             [(''choices'', JList [JObject [(''message'', JObject [(''content'', JString ''X'')])]]),
              (''id'', JString ''abc'')]))))
        ''How does login work?'' (Some [''my-repo'']) None []) = Inr res \<and>
      answer res = JString ''X'' \<and> conversation_id res = JString ''abc''\<close>
  using chat_returns_answer_and_id
    [where conv = None and ds = "Some [''my-repo'']" and x = "''X''" and i = "''abc''"
       and rt = sample_runtime and c = sample_client
       and raw = \<open>''{"choices":[{"message":{"content":"X"}}], "id":"abc"}''\<close>
       and net = \<open>\<lambda>r. HttpOk (Text ''{"choices":[{"message":{"content":"X"}}], "id":"abc"}''
           (Some (JObject
             [(''choices'', JList [JObject [(''message'', JObject [(''content'', JString ''X'')])]]),
              (''id'', JString ''abc'')])))\<close>]
    sample_chat_url
  by simp

text \<open>
  Claim C5 does not hold of the code. The answer is read with a default at every level,
  which covers every key that is absent, but not a \<^verbatim>\<open>choices\<close> list that is present and
  empty: on the response \<^verbatim>\<open>{"choices": []}\<close> taking the first choice raises \<^verbatim>\<open>IndexError\<close>
  where the claim has the empty answer.
\<close>

theorem chat_empty_choices_raises:
  \<open>fst (chat sample_runtime sample_client
        (\<lambda>r. HttpOk (Text ''{"choices": []}'' (Some (JObject [(''choices'', JList [])]))))
        ''How does login work?'' (Some [''my-repo'']) None []) = Inl IndexError\<close>
  using sample_chat_url
  by (simp add: chat_def chat_body_def make_request_def chat_answer_def ebind_def)

text \<open>Where the claim does hold: every key that is absent gives the empty answer.\<close>

lemma chat_absent_fields_give_empty_answer:
  assumes "opt_truthy conv \<or> opt_truthy ds"
    and "request_error rt (request_url c ''/api/chat/completions'' None) = None"
    and "\<And>r. net r = HttpOk (Text raw (Some (JObject kvs)))" and "raw \<noteq> []"
    and "map_of kvs ''choices'' = None \<or>
         (\<exists>first rest. map_of kvs ''choices'' = Some (JList (JObject first # rest)) \<and>
            (map_of first ''message'' = None \<or>
             (\<exists>m. map_of first ''message'' = Some (JObject m) \<and> map_of m ''content'' = None)))"
  shows "\<exists>res. fst (chat rt c net q ds conv sent) = Inr res \<and> answer res = JString []"
  using chat_on_response [OF assms(1,2,3,4)] assms(5)
  by (auto simp: chat_answer_def ebind_def)

section \<open>Properties of search and of the search script\<close>






text \<open>
  Claim C8. A response that is a mapping with the list \<open>items\<close> under \<^verbatim>\<open>results\<close> is rendered
  exactly as the bare list \<open>items\<close> is: the same text, or the same exception.
\<close>

theorem format_bare_list_same_as_envelope:
  "map_of kvs ''results'' = Some (JList items) \<Longrightarrow>
   format_search_results rt (JObject kvs) include_content =
   format_search_results rt (JList items) include_content"
proof -
  assume a: "map_of kvs ''results'' = Some (JList items)"
  then have ne: "kvs \<noteq> []" by auto
  from a have k: "''results'' \<in> set (map fst kvs)"
    by (metis map_of_eq_None_iff option.distinct(1) set_map)
  show ?thesis
    using a ne k by (cases items) (simp_all add: format_search_results_def ebind_def)
qed

theorem format_bare_list_same_as_envelope_witness:
  "format_search_results sample_runtime
     (JObject [(''results'',
        JList [JObject [(''kind'', JString ''Chunk''),
                        (''identifier'', JString ''repo::src/db.py::12'')]])]) False =
   format_search_results sample_runtime
     (JList [JObject [(''kind'', JString ''Chunk''),
                      (''identifier'', JString ''repo::src/db.py::12'')]]) False"
  by (rule format_bare_list_same_as_envelope) simp

text \<open>
  Claim C10, as stated, fails for the empty mapping, which is a mapping without a
  \<^verbatim>\<open>results\<close> key: the formatter reports that nothing was found.
\<close>

theorem format_empty_mapping_counterexample:
  "format_search_results sample_runtime (JObject []) False = Inr ''No results found.''"
  by (simp add: format_search_results_def)

lemma ebind_Inr: "ebind m f = Inr y \<Longrightarrow> \<exists>x. m = Inr x \<and> f x = Inr y"
  by (cases m) (simp_all add: ebind_def)

lemma format_fields_header:
  assumes "format_fields rt idx result = Inr block"
  shows "\<exists>more. block =
           (''\<newline>--- Result #'' @ show_nat idx @ '' ['' @
            py_str rt (get_or result ''kind'' (JString [])) @ ''] ---'') # more"
  using assms unfolding format_fields_def Let_def
  by (auto dest!: ebind_Inr)

text \<open>
  Claim C10, amended. A non-empty mapping without a \<^verbatim>\<open>results\<close> key is treated as the
  single result item. Rendering it either raises what rendering that item raises (a field
  of a type the formatter does not expect), or gives the block of result 1, which starts
  with the header line of result 1, followed by the count line for one result.
\<close>

theorem format_mapping_without_results:
  "kvs \<noteq> [] \<Longrightarrow> map_of kvs ''results'' = None \<Longrightarrow>
   (case format_result rt 1 (JObject kvs) of
      Inl e \<Rightarrow> format_search_results rt (JObject kvs) include_content = Inl e
    | Inr block \<Rightarrow>
        format_search_results rt (JObject kvs) include_content =
          Inr (join ''\<newline>'' (block @ [''\<newline>(1 results)''])) \<and>
        (\<exists>more. block =
           (''\<newline>--- Result #1 ['' @ py_str rt (get_or kvs ''kind'' (JString [])) @ ''] ---'')
           # more))"
proof -
  assume ne: "kvs \<noteq> []" and a: "map_of kvs ''results'' = None"
  from a have k: "''results'' \<notin> set (map fst kvs)"
    by (simp add: map_of_eq_None_iff)
  have one: "show_nat (Suc 0) = ''1''"
    by (simp add: show_nat.simps digit_char_def)
  show ?thesis
  proof (cases "format_fields rt 1 kvs")
    case (Inl e)
    with ne k show ?thesis by (simp add: format_search_results_def ebind_def)
  next
    case (Inr block)
    from format_fields_header [OF Inr] one obtain more where
      "block = (''\<newline>--- Result #1 ['' @ py_str rt (get_or kvs ''kind'' (JString [])) @
                ''] ---'') # more"
      by auto
    with Inr ne k one show ?thesis by (simp add: format_search_results_def ebind_def)
  qed
qed

theorem format_mapping_without_results_witness:
  "format_search_results sample_runtime
     (JObject [(''kind'', JString ''Symbol''), (''path'', JString ''src/auth.py'')]) False =
   Inr ''\<newline>--- Result #1 [Symbol] ---\<newline>  File: src/auth.py\<newline>\<newline>(1 results)''"
  using format_mapping_without_results
    [of "[(''kind'', JString ''Symbol''), (''path'', JString ''src/auth.py'')]"
        sample_runtime False]
  by (simp add: format_fields_def get_or_def ebind_def py_or_def py_eq_def strip_def
        show_nat.simps digit_char_def)

section \<open>Properties of credential resolution and of the error mapping\<close>









text \<open>
  The message raised for status 401 when the message taken from the body is a string.
\<close>

lemma make_request_401_message:
  assumes "request_error rt (request_url c endpoint params) = None"
    and "\<And>r. net r = HTTPError 401 p" and "error_message p = Inr (JString m)"
  shows "fst (make_request rt c net method endpoint params body sent) =
           Inl (Exception (''Authentication failed (401)'' @
             (if strip m \<noteq> [] then '': '' @ m else []) @
             ''. Your API key may be invalid or expired. Get a new key at: '' @
             base_url c @ ''/settings/api-keys''))"
  using assms by (simp add: make_request_def http_error_def)

lemma sample_datasources_url:
  "request_error sample_runtime (request_url sample_client ''/api/datasources/alive'' None) =
     None"
  by (simp add: url_eval sample_runtime_def sample_client_def)

text \<open>
  Claim C7 does not hold of the code for every 401 response. When the body is
  \<^verbatim>\<open>{"error": {"message": "Invalid API key"}}\<close>, the message taken from it is a mapping, the
  branch for 401 calls \<^verbatim>\<open>strip\<close> on it, and the client raises \<^verbatim>\<open>AttributeError\<close> in place of
  the authentication error. The branches for the other status codes format the same value
  without calling a method on it.
\<close>

theorem make_request_401_nested_error:
  \<open>fst (make_request sample_runtime sample_client
        (\<lambda>r. HTTPError 401 (Text ''{"error": {"message": "Invalid API key"}}''
           (Some (JObject [(''error'', JObject [(''message'', JString ''Invalid API key'')])]))))
        ''GET'' ''/api/datasources/alive'' None None []) = Inl AttributeError\<close>
  using sample_datasources_url
  by (simp add: make_request_def error_message_def http_error_def ebind_def py_or_def)

lemma make_request_403_nested_error:
  \<open>fst (make_request sample_runtime sample_client
        (\<lambda>r. HTTPError 403 (Text ''{"error": {"message": "Invalid API key"}}''
           (Some (JObject [(''error'', JObject [(''message'', JString ''Invalid API key'')])]))))
        ''GET'' ''/api/datasources/alive'' None None []) =
   Inl (Exception (''Access denied (403): '' @
          py_repr sample_runtime (JObject [(''message'', JString ''Invalid API key'')]) @
          ''. Your API key may lack permissions for this operation.''))\<close>
  using sample_datasources_url
  by (simp add: make_request_def error_message_def http_error_def ebind_def py_or_def)

section \<open>Properties of the explore workflows\<close>

lemma search_sent:
  "\<exists>rest. snd (search rt c net q ds m ic sent) = sent @ rest \<and>
     length rest \<le> 1 \<and>
     (request_error rt (request_url c ''/api/search'' (Some (search_params q ds m ic))) = None
        \<longrightarrow> rest \<noteq> []) \<and>
     (rest = [] \<longrightarrow> (\<exists>e. search rt c net q ds m ic sent = (Inl e, sent))) \<and>
     (\<forall>req \<in> set rest.
        req_url req = base_url c @ ''/api/search'' \<and>
        query_key req ''Query'' = Some q \<and>
        query_key req ''Mode'' = Some m \<and>
        query_key req ''IncludeContent'' = Some (if ic then ''true'' else ''false''))"
proof -
  define params where "params = search_params q ds m ic"
  have pairs:
    "(case Some params of Some (p # ps) \<Rightarrow> Some (urlencode_doseq (p # ps)) | _ \<Rightarrow> None) =
       Some (urlencode_doseq params)"
    unfolding params_def by (simp add: search_params_def)
  have keys: "map_of (urlencode_doseq params) ''Query'' = Some q"
    "map_of (urlencode_doseq params) ''Mode'' = Some m"
    "map_of (urlencode_doseq params) ''IncludeContent'' =
       Some (if ic then ''true'' else ''false'')"
    unfolding params_def by (simp_all add: search_params_def)
  from make_request_sent [of rt c net "''GET''" "''/api/search''" "Some params" None sent]
  obtain rest where
    a: "snd (make_request rt c net ''GET'' ''/api/search'' (Some params) None sent) =
          sent @ rest"
      "length rest \<le> 1"
      "request_error rt (request_url c ''/api/search'' (Some params)) = None \<longrightarrow> rest \<noteq> []"
      "rest = [] \<longrightarrow>
         (\<exists>e. make_request rt c net ''GET'' ''/api/search'' (Some params) None sent =
                (Inl e, sent))"
    and b: "\<forall>req \<in> set rest.
        req_url req = base_url c @ ''/api/search'' \<and>
        req_query req = Some (urlencode_doseq params)"
    unfolding pairs by auto
  from b keys have "\<forall>req \<in> set rest.
        req_url req = base_url c @ ''/api/search'' \<and>
        query_key req ''Query'' = Some q \<and>
        query_key req ''Mode'' = Some m \<and>
        query_key req ''IncludeContent'' = Some (if ic then ''true'' else ''false'')"
    by (simp add: query_key_def)
  with a show ?thesis
    unfolding search_def params_def [symmetric] by (intro exI [of _ rest]) simp
qed

lemma chat_sends:
  "\<exists>more. snd (chat rt c net q ds conv sent) = sent @ more \<and>
     (\<forall>r \<in> set more. req_url r = base_url c @ ''/api/chat/completions'')"
proof (cases "chat_body q ds conv")
  case (Inl e)
  then show ?thesis by (simp add: snd_chat)
next
  case (Inr body)
  from make_request_sent
    [of rt c net "''POST''" "''/api/chat/completions''" None
        "Some (dict_set body ''stream'' (JBool False))" sent]
  obtain more where
    "snd (make_request rt c net ''POST'' ''/api/chat/completions'' None
            (Some (dict_set body ''stream'' (JBool False))) sent) = sent @ more"
    "\<forall>r \<in> set more. req_url r = base_url c @ ''/api/chat/completions''"
    by blast
  with Inr show ?thesis by (simp add: snd_chat)
qed

lemma snd_after_chat:
  "snd (case x of (Inl e, sent2) \<Rightarrow> (Inl e, sent2)
              | (Inr chat_result, sent2) \<Rightarrow> (Inr (f chat_result), sent2)) = snd x"
  by (auto split: prod.splits sum.splits)

lemma chat_step:
  "\<exists>more. snd (case chat rt c net q ds conv sent1 of
                  (Inl e, sent2) \<Rightarrow> (Inl e, sent2)
                | (Inr chat_result, sent2) \<Rightarrow> (Inr (f chat_result), sent2)) = sent1 @ more \<and>
     (\<forall>r \<in> set more. req_url r = base_url c @ ''/api/chat/completions'')"
  using chat_sends [of rt c net q ds conv sent1] by (simp add: snd_after_chat)

lemma search_then:
  assumes "\<And>found sent1. \<exists>more. snd (k found sent1) = sent1 @ more \<and>
             (\<forall>r \<in> set more. req_url r = base_url c @ ''/api/chat/completions'')"
  shows "\<exists>rest.
           snd (case search rt c net q ds m ic sent of
                  (Inl e, sent1) \<Rightarrow> (Inl e, sent1)
                | (Inr found, sent1) \<Rightarrow> k found sent1) = sent @ rest \<and>
           (request_error rt (request_url c ''/api/search'' (Some (search_params q ds m ic))) =
              None \<longrightarrow> rest \<noteq> []) \<and>
           (\<forall>req more. rest = req # more \<longrightarrow>
              req_url req = base_url c @ ''/api/search'' \<and>
              query_key req ''Query'' = Some q \<and>
              query_key req ''Mode'' = Some m \<and>
              query_key req ''IncludeContent'' = Some (if ic then ''true'' else ''false'') \<and>
              (\<forall>r \<in> set more. req_url r = base_url c @ ''/api/chat/completions''))"
proof -
  let ?run = "case search rt c net q ds m ic sent of
                (Inl e, sent1) \<Rightarrow> (Inl e, sent1)
              | (Inr found, sent1) \<Rightarrow> k found sent1"
  from search_sent [of rt c net q ds m ic sent] obtain first where
    sent1: "snd (search rt c net q ds m ic sent) = sent @ first"
    and len: "length first \<le> 1"
    and built: "request_error rt (request_url c ''/api/search''
                  (Some (search_params q ds m ic))) = None \<longrightarrow> first \<noteq> []"
    and raised: "first = [] \<longrightarrow> (\<exists>e. search rt c net q ds m ic sent = (Inl e, sent))"
    and flags: "\<forall>req \<in> set first.
        req_url req = base_url c @ ''/api/search'' \<and>
        query_key req ''Query'' = Some q \<and>
        query_key req ''Mode'' = Some m \<and>
        query_key req ''IncludeContent'' = Some (if ic then ''true'' else ''false'')"
    by (elim exE conjE)
  show ?thesis
  proof (cases first)
    case Nil
    with raised obtain e where "search rt c net q ds m ic sent = (Inl e, sent)"
      by (elim impE exE) simp_all
    then have "snd ?run = sent @ []" by simp
    moreover from Nil built
    have "request_error rt (request_url c ''/api/search'' (Some (search_params q ds m ic)))
            \<noteq> None"
      by (cases "request_error rt (request_url c ''/api/search''
                   (Some (search_params q ds m ic)))") simp_all
    ultimately show ?thesis
      by (intro exI [of _ "[]"] conjI) simp_all
  next
    case (Cons req others)
    with len have first: "first = [req]" by simp
    obtain res s1 where pair: "search rt c net q ds m ic sent = (res, s1)"
      by (cases "search rt c net q ds m ic sent")
    with sent1 first have s1: "s1 = sent @ [req]" by simp
    from flags first have req:
      "req_url req = base_url c @ ''/api/search''" "query_key req ''Query'' = Some q"
      "query_key req ''Mode'' = Some m"
      "query_key req ''IncludeContent'' = Some (if ic then ''true'' else ''false'')"
      by simp_all
    show ?thesis
    proof (cases res)
      case (Inl e)
      with pair s1 have "snd ?run = sent @ [req]" by simp
      then show ?thesis
        using req by (intro exI [of _ "[req]"] conjI) simp_all
    next
      case (Inr found)
      from assms [of found s1] obtain more where
        more: "snd (k found s1) = s1 @ more"
        and chats: "\<forall>r \<in> set more. req_url r = base_url c @ ''/api/chat/completions''"
        by (elim exE conjE)
      from Inr pair more s1 have "snd ?run = sent @ req # more" by simp
      then show ?thesis
        using req chats by (intro exI [of _ "req # more"] conjI) simp_all
    qed
  qed
qed

lemma understand_requests:
  "\<exists>rest. snd (explore_understand rt c net query data_sources sent) = sent @ rest \<and>
     (request_error rt (request_url c ''/api/search''
        (Some (search_params query data_sources ''auto'' False))) = None \<longrightarrow> rest \<noteq> []) \<and>
     (\<forall>req more. rest = req # more \<longrightarrow>
        req_url req = base_url c @ ''/api/search'' \<and>
        query_key req ''Query'' = Some query \<and>
        query_key req ''Mode'' = Some ''auto'' \<and>
        query_key req ''IncludeContent'' = Some (if False then ''true'' else ''false'') \<and>
        (\<forall>r \<in> set more. req_url r = base_url c @ ''/api/chat/completions''))"
  unfolding explore_understand_def
proof (rule search_then)
  fix found :: json and sent1 :: "request list"
  show "\<exists>more.
          snd (case ebind (first_five (understand_items found)) (understand_locations rt 1) of
                 Inl e \<Rightarrow> (Inl e, sent1)
               | Inr shown \<Rightarrow>
                   (case chat rt c net
                           (''Based on the search results for '' @ quoted query @
                            '', explain how this works in the codebase. '' @
                            ''Focus on architecture, key components, and data flow.'')
                           (Some data_sources) None sent1 of
                      (Inl e, sent2) \<Rightarrow> (Inl e, sent2)
                    | (Inr chat_result, sent2) \<Rightarrow> (Inr (answer chat_result), sent2))) =
          sent1 @ more \<and>
          (\<forall>r \<in> set more. req_url r = base_url c @ ''/api/chat/completions'')"
    using chat_step [where f = answer]
    by (cases "ebind (first_five (understand_items found)) (understand_locations rt 1)") auto
qed

lemma dependency_requests:
  "\<exists>rest. snd (explore_dependency rt c net query data_sources sent) = sent @ rest \<and>
     (request_error rt (request_url c ''/api/search''
        (Some (search_params
           (''How is '' @ query @ '' used? Show me import statements and usage examples'')
           data_sources ''auto'' True))) = None \<longrightarrow> rest \<noteq> []) \<and>
     (\<forall>req more. rest = req # more \<longrightarrow>
        req_url req = base_url c @ ''/api/search'' \<and>
        query_key req ''Query'' =
          Some (''How is '' @ query @ '' used? Show me import statements and usage examples'') \<and>
        query_key req ''Mode'' = Some ''auto'' \<and>
        query_key req ''IncludeContent'' = Some (if True then ''true'' else ''false'') \<and>
        (\<forall>r \<in> set more. req_url r = base_url c @ ''/api/chat/completions''))"
  unfolding explore_dependency_def by (rule search_then) (rule chat_step)

lemma pattern_requests:
  "\<exists>rest. snd (explore_pattern rt c net query data_sources sent) = sent @ rest \<and>
     (request_error rt (request_url c ''/api/search''
        (Some (search_params (''Show me different implementations of '' @ query)
           data_sources ''deep'' True))) = None \<longrightarrow> rest \<noteq> []) \<and>
     (\<forall>req more. rest = req # more \<longrightarrow>
        req_url req = base_url c @ ''/api/search'' \<and>
        query_key req ''Query'' = Some (''Show me different implementations of '' @ query) \<and>
        query_key req ''Mode'' = Some ''deep'' \<and>
        query_key req ''IncludeContent'' = Some (if True then ''true'' else ''false'') \<and>
        (\<forall>r \<in> set more. req_url r = base_url c @ ''/api/chat/completions''))"
  unfolding explore_pattern_def by (rule search_then) (rule chat_step)

lemma implement_requests:
  "\<exists>rest. snd (explore_implement rt c net query data_sources sent) = sent @ rest \<and>
     (request_error rt (request_url c ''/api/search''
        (Some (search_params (''Similar features to '' @ query @ '', existing implementations'')
           data_sources ''auto'' False))) = None \<longrightarrow> rest \<noteq> []) \<and>
     (\<forall>req more. rest = req # more \<longrightarrow>
        req_url req = base_url c @ ''/api/search'' \<and>
        query_key req ''Query'' =
          Some (''Similar features to '' @ query @ '', existing implementations'') \<and>
        query_key req ''Mode'' = Some ''auto'' \<and>
        query_key req ''IncludeContent'' = Some (if False then ''true'' else ''false'') \<and>
        (\<forall>r \<in> set more. req_url r = base_url c @ ''/api/chat/completions''))"
  unfolding explore_implement_def by (rule search_then) (rule chat_step)

lemma debug_requests:
  "\<exists>rest. snd (explore_debug rt c net query data_sources sent) = sent @ rest \<and>
     (request_error rt (request_url c ''/api/search''
        (Some (search_params (''Code related to '' @ query) data_sources ''auto'' True))) =
        None \<longrightarrow> rest \<noteq> []) \<and>
     (\<forall>req more. rest = req # more \<longrightarrow>
        req_url req = base_url c @ ''/api/search'' \<and>
        query_key req ''Query'' = Some (''Code related to '' @ query) \<and>
        query_key req ''Mode'' = Some ''auto'' \<and>
        query_key req ''IncludeContent'' = Some (if True then ''true'' else ''false'') \<and>
        (\<forall>r \<in> set more. req_url r = base_url c @ ''/api/chat/completions''))"
  unfolding explore_debug_def by (rule search_then) (rule chat_step)

text \<open>
  Claim C9, as stated, fails for the dependency workflow, which the claim counts among
  those that do not request content: its search call asks for content.
\<close>

theorem explore_dependency_counterexample:
  "map (\<lambda>r. (req_url r, query_key r ''Mode'', query_key r ''IncludeContent''))
     (snd (explore ''dependency'' sample_runtime sample_client (\<lambda>r. HttpOk (Text [] None))
             ''lodash debounce'' [''my-frontend''] [])) =
   [(''https://app.codealive.ai/api/search'', Some ''auto'', Some ''true''),
    (''https://app.codealive.ai/api/chat/completions'', None, None)]"
  by (simp add: explore_def explore_dependency_def search_def chat_def chat_body_def
        make_request_def query_key_def chat_answer_def ebind_def Let_def url_eval
        sample_client_def sample_runtime_def)

text \<open>
  Claim C9, amended. Every workflow starts with its search call, for which at most one
  request is sent; the requests that follow it all go to the chat endpoint. The search
  request is sent whenever it can be built for the client's URL, and nothing is sent
  otherwise. The pattern workflow searches in mode \<^verbatim>\<open>deep\<close>, every other workflow in mode
  \<^verbatim>\<open>auto\<close>; the dependency, pattern and debug workflows request content, the understand
  and implement workflows do not.
\<close>

theorem explore_search_flags:
  "mode \<in> {''understand'', ''dependency'', ''pattern'', ''implement'', ''debug''} \<Longrightarrow>
   \<exists>rest. snd (explore mode rt c net query data_sources sent) = sent @ rest \<and>
     (request_error rt (request_url c ''/api/search''
        (Some (search_params (search_text mode query) data_sources
           (if mode = ''pattern'' then ''deep'' else ''auto'')
           (mode \<in> {''dependency'', ''pattern'', ''debug''})))) = None \<longrightarrow> rest \<noteq> []) \<and>
     (\<forall>req more. rest = req # more \<longrightarrow>
        req_url req = base_url c @ ''/api/search'' \<and>
        query_key req ''Query'' = Some (search_text mode query) \<and>
        query_key req ''Mode'' = Some (if mode = ''pattern'' then ''deep'' else ''auto'') \<and>
        query_key req ''IncludeContent'' =
          Some (if mode \<in> {''dependency'', ''pattern'', ''debug''} then ''true''
                else ''false'') \<and>
        (\<forall>r \<in> set more. req_url r = base_url c @ ''/api/chat/completions''))"
proof -
  assume "mode \<in> {''understand'', ''dependency'', ''pattern'', ''implement'', ''debug''}"
  then consider "mode = ''understand''" | "mode = ''dependency''" | "mode = ''pattern''"
    | "mode = ''implement''" | "mode = ''debug''"
    by auto
  then show ?thesis
  proof cases
    case 1
    with understand_requests [of rt c net query data_sources sent] show ?thesis
      by (simp add: explore_def search_text_def)
  next
    case 2
    with dependency_requests [of rt c net query data_sources sent] show ?thesis
      by (simp add: explore_def search_text_def)
  next
    case 3
    with pattern_requests [of rt c net query data_sources sent] show ?thesis
      by (simp add: explore_def search_text_def)
  next
    case 4
    with implement_requests [of rt c net query data_sources sent] show ?thesis
      by (simp add: explore_def search_text_def)
  next
    case 5
    with debug_requests [of rt c net query data_sources sent] show ?thesis
      by (simp add: explore_def search_text_def)
  qed
qed

lemma sample_pattern_url:
  "request_error sample_runtime (request_url sample_client ''/api/search''
     (Some (search_params ''Show me different implementations of error handling''
        [''my-repo''] ''deep'' True))) = None"
  by (simp add: url_eval sample_runtime_def sample_client_def)

theorem explore_search_flags_witness:
  "\<exists>req more. snd (explore ''pattern'' sample_runtime sample_client
                     (\<lambda>r. HttpOk (Text [] None)) ''error handling'' [''my-repo''] []) =
       req # more \<and>
     req_url req = ''https://app.codealive.ai/api/search'' \<and>
     query_key req ''Query'' = Some ''Show me different implementations of error handling'' \<and>
     query_key req ''Mode'' = Some ''deep'' \<and>
     query_key req ''IncludeContent'' = Some ''true'' \<and>
     (\<forall>r \<in> set more. req_url r = ''https://app.codealive.ai/api/chat/completions'')"
proof -
  from explore_search_flags
    [of "''pattern''" sample_runtime sample_client "\<lambda>r. HttpOk (Text [] None)"
        "''error handling''" "[''my-repo'']" "[]"]
    sample_pattern_url
  obtain rest where
    rest: "snd (explore ''pattern'' sample_runtime sample_client
                  (\<lambda>r. HttpOk (Text [] None)) ''error handling'' [''my-repo''] []) = rest"
    and ne: "rest \<noteq> []"
    and flags: "\<forall>req more. rest = req # more \<longrightarrow>
        req_url req = base_url sample_client @ ''/api/search'' \<and>
        query_key req ''Query'' = Some ''Show me different implementations of error handling'' \<and>
        query_key req ''Mode'' = Some ''deep'' \<and>
        query_key req ''IncludeContent'' = Some ''true'' \<and>
        (\<forall>r \<in> set more. req_url r = base_url sample_client @ ''/api/chat/completions'')"
    by (auto simp: search_text_def)
  from ne obtain req more where "rest = req # more"
    by (cases rest) auto
  with rest flags show ?thesis
    by (auto simp: sample_client_def)
qed

end
